theory Spec2Isabelle
  imports Main
begin

section \<open>The store\<close>

text \<open>
  The data-access module \<^verbatim>\<open>metadb/data.py\<close> issues SQL statements against a relational
  store.  A table is modelled as the list of its rows, in insertion order; an
  \<^verbatim>\<open>INSERT\<close> appends a row, an \<^verbatim>\<open>UPDATE ... WHERE\<close> rewrites every row the condition
  selects, and \<^verbatim>\<open>fetchone()\<close> returns the first selected row.  The scripts that create the
  tables are not among the sources, so no statement is rejected by a table constraint
  here; columns the code never writes (the \<^verbatim>\<open>added\<close> defaults) are left out.

  An MBID is a string.  A \<^verbatim>\<open>last_updated\<close> value is a point in time in UTC; it is read
  back from the store as the same instant (\<^verbatim>\<open>AT TIME ZONE 'UTC'\<close> followed by
  \<^verbatim>\<open>replace(tzinfo=pytz.utc)\<close>) and is modelled by the integer number of microseconds
  since the epoch, so that Python's \<^verbatim>\<open>>=\<close> on two such values is \<open>\<ge>\<close> on integers.
\<close>

type_synonym mbid = string
type_synonym timestamp = int

text \<open>
  The dictionaries handed to the metadata functions: the keys \<^verbatim>\<open>mbid\<close>, \<^verbatim>\<open>name\<close>,
  \<^verbatim>\<open>artist_credit\<close> and \<^verbatim>\<open>last_updated\<close> are common to a recording and a release group;
  a release group adds \<^verbatim>\<open>first_release_date\<close>, a recording its \<^verbatim>\<open>release_group_map\<close>.
  The rows of \<^verbatim>\<open>recording_meta\<close> and \<^verbatim>\<open>release_group_meta\<close> have the same columns.
\<close>

record meta =
  mbid :: mbid
  name :: string
  artist_credit :: string
  last_updated :: timestamp

record release_group_meta = meta +
  first_release_date :: string

record recording = meta +
  release_group_map :: "(mbid \<times> release_group_meta) list"

record source_row =
  source_id :: int
  source_name :: string

record scraper_row =
  scraper_id :: int
  scraper_source_id :: int
  scraper_module :: string
  scraper_mb_type :: string
  scraper_version :: int
  scraper_description :: string

text \<open>
  The exceptions the modelled code can raise: Python's own \<^verbatim>\<open>ValueError\<close> and
  \<^verbatim>\<open>TypeError\<close>, and the error classes of the database interface.
\<close>

datatype exn =
    ValueError string
  | TypeError string
  | ProgrammingError string
  | IntegrityError string
  | OperationalError string
  | DataError string
  | InternalError string

text \<open>
  The values a scraper passes as the payload of an item.  \<open>PyObject\<close> stands for an
  object of any other class (an instance of \<^verbatim>\<open>object\<close>, a set that is not empty), named
  by its \<^verbatim>\<open>repr\<close>: Python takes it for true, the JSON encoder has no encoding for it,
  and the database driver cannot turn it into a statement parameter.  Floats and bytes
  values are left out.
\<close>

record datetime =
  year :: nat
  month :: nat
  day :: nat
  hour :: nat
  minute :: nat
  second :: nat
  microsecond :: nat
  utcoffset :: "int option"

datatype pyobj =
    PyNone
  | PyBool bool
  | PyInt int
  | PyStr string
  | PyDateTime datetime
  | PyList "pyobj list"
  | PyDict "(pyobj \<times> pyobj) list"
  | PyObject string

record item_row =
  item_id :: int
  item_scraper_id :: int
  item_mbid :: mbid

record item_data_row =
  item_data_item_id :: int
  item_data_data :: pyobj

record store =
  source_rows :: "source_row list"
  scraper_rows :: "scraper_row list"
  recording_rows :: "mbid list"
  recording_redirect_rows :: "(mbid \<times> mbid) list"
  recording_meta_rows :: "meta list"
  release_group_rows :: "mbid list"
  release_group_meta_rows :: "release_group_meta list"
  recording_release_group_rows :: "(mbid \<times> mbid) list"
  item_rows :: "item_row list"
  item_data_rows :: "item_data_row list"
  source_id_seq :: int
  scraper_id_seq :: int
  item_id_seq :: int

definition empty_store :: store where
  "empty_store = \<lparr>source_rows = [], scraper_rows = [], recording_rows = [],
     recording_redirect_rows = [], recording_meta_rows = [], release_group_rows = [],
     release_group_meta_rows = [], recording_release_group_rows = [], item_rows = [],
     item_data_rows = [], source_id_seq = 1, scraper_id_seq = 1, item_id_seq = 1\<rparr>"

text \<open>
  \<^verbatim>\<open>with db.engine.begin() as connection\<close>: the block runs in one transaction, committed
  when the block ends and rolled back when it raises.  A rollback restores every table;
  the identifiers a sequence has handed out are not given back.
\<close>

definition rollback :: "store \<Rightarrow> store \<Rightarrow> store" where
  "rollback s s' = s\<lparr>source_id_seq := source_id_seq s',
     scraper_id_seq := scraper_id_seq s', item_id_seq := item_id_seq s'\<rparr>"

definition engine_begin :: "(store \<Rightarrow> (exn + 'a) \<times> store) \<Rightarrow> store \<Rightarrow> (exn + 'a) \<times> store" where
  "engine_begin body s =
     (case body s of
        (Inl e, s') \<Rightarrow> (Inl e, rollback s s')
      | (Inr v, s') \<Rightarrow> (Inr v, s'))"

text \<open>\<^verbatim>\<open>fetchone()\<close>: the first row of a result, or \<^verbatim>\<open>None\<close>.\<close>

definition fetchone :: "'a list \<Rightarrow> 'a option" where
  "fetchone rows = (case rows of [] \<Rightarrow> None | row # _ \<Rightarrow> Some row)"

section \<open>Sources and scrapers\<close>

definition add_source :: "string \<Rightarrow> store \<Rightarrow> source_row \<times> store" where
  "add_source nm s =
     (let i = source_id_seq s
      in (\<lparr>source_id = i, source_name = nm\<rparr>,
          s\<lparr>source_rows := source_rows s @ [\<lparr>source_id = i, source_name = nm\<rparr>],
            source_id_seq := i + 1\<rparr>))"

definition load_source :: "string \<Rightarrow> store \<Rightarrow> source_row option" where
  "load_source nm s =
     fetchone [r \<leftarrow> source_rows s. source_name r = nm]"

definition add_scraper ::
  "source_row \<Rightarrow> string \<Rightarrow> string \<Rightarrow> int \<Rightarrow> string \<Rightarrow> store \<Rightarrow> (exn + scraper_row) \<times> store" where
  "add_scraper source module mb_type version description s =
     (if mb_type \<notin> set [''recording'', ''release_group'']
      then (Inl (ValueError ''Invalid mb_type. Must be one of [recording, release_group]''), s)
      else
        (let i = scraper_id_seq s;
             data = \<lparr>scraper_id = i, scraper_source_id = source_id source,
                     scraper_module = module, scraper_mb_type = mb_type,
                     scraper_version = version, scraper_description = description\<rparr>
         in (Inr data, s\<lparr>scraper_rows := scraper_rows s @ [data], scraper_id_seq := i + 1\<rparr>)))"

text \<open>
  \<^verbatim>\<open>ORDER BY version DESC LIMIT 1\<close>: a row of the source with the greatest version; among
  rows that share it the model takes the first.
\<close>

definition load_latest_scraper_for_source :: "source_row \<Rightarrow> store \<Rightarrow> scraper_row option" where
  "load_latest_scraper_for_source source s =
     (let rows = [r \<leftarrow> scraper_rows s. scraper_source_id r = source_id source]
      in fetchone [r \<leftarrow> rows. \<forall>r' \<in> set rows. scraper_version r' \<le> scraper_version r])"

section \<open>Recording identities and redirects\<close>

text \<open>
  A Python function whose name starts with an underscore works on the connection of a
  transaction its caller has opened; its model carries the prefix \<open>conn\<close> instead.
  \<^verbatim>\<open>result.rowcount\<close> is only ever tested for being zero: it is zero exactly when the
  \<^verbatim>\<open>SELECT\<close> finds no row.
\<close>

fun conn_add_recording_mbids :: "mbid list \<Rightarrow> store \<Rightarrow> mbid list \<times> store" where
  "conn_add_recording_mbids [] s = ([], s)"
| "conn_add_recording_mbids (m # mbids) s =
     (if [r \<leftarrow> recording_rows s. r = m] = []
      then (case conn_add_recording_mbids mbids (s\<lparr>recording_rows := recording_rows s @ [m]\<rparr>) of
              (ret, s') \<Rightarrow> (m # ret, s'))
      else conn_add_recording_mbids mbids s)"

definition add_recording_mbids :: "mbid list \<Rightarrow> store \<Rightarrow> mbid list \<times> store" where
  "add_recording_mbids mbids s = conn_add_recording_mbids mbids s"

definition musicbrainz_check_mbid_redirect :: "mbid \<Rightarrow> mbid \<Rightarrow> store \<Rightarrow> store" where
  "musicbrainz_check_mbid_redirect query_mbid actual_mbid s =
     (if query_mbid = actual_mbid then s
      else if [r \<leftarrow> recording_redirect_rows s. fst r = query_mbid \<and> snd r = actual_mbid] = []
      then (case conn_add_recording_mbids [actual_mbid] s of
              (_, s') \<Rightarrow>
                s'\<lparr>recording_redirect_rows :=
                     recording_redirect_rows s' @ [(query_mbid, actual_mbid)]\<rparr>)
      else s)"

section \<open>Metadata\<close>

definition conn_get_recording_meta :: "mbid \<Rightarrow> store \<Rightarrow> meta option" where
  "conn_get_recording_meta recording_mbid s =
     fetchone [r \<leftarrow> recording_meta_rows s. mbid r = recording_mbid]"

definition conn_add_recording_meta :: "'a meta_scheme \<Rightarrow> store \<Rightarrow> store" where
  "conn_add_recording_meta recording s =
     (case conn_get_recording_meta (mbid recording) s of
        Some existing \<Rightarrow>
          if last_updated existing \<ge> last_updated recording then s
          else s\<lparr>recording_meta_rows :=
                   map (\<lambda>r. if mbid r = mbid recording
                            then r\<lparr>name := name recording,
                                   artist_credit := artist_credit recording,
                                   last_updated := last_updated recording\<rparr>
                            else r)
                       (recording_meta_rows s)\<rparr>
      | None \<Rightarrow>
          s\<lparr>recording_meta_rows := recording_meta_rows s @
              [\<lparr>mbid = mbid recording, name = name recording,
                artist_credit = artist_credit recording,
                last_updated = last_updated recording\<rparr>]\<rparr>)"

definition conn_get_release_group_meta :: "mbid \<Rightarrow> store \<Rightarrow> release_group_meta option" where
  "conn_get_release_group_meta release_group_mbid s =
     fetchone [r \<leftarrow> release_group_meta_rows s. mbid r = release_group_mbid]"

definition conn_add_release_group_meta :: "'a release_group_meta_scheme \<Rightarrow> store \<Rightarrow> store" where
  "conn_add_release_group_meta release_group s =
     (case conn_get_release_group_meta (mbid release_group) s of
        Some existing_rg \<Rightarrow>
          if last_updated existing_rg \<ge> last_updated release_group then s
          else s\<lparr>release_group_meta_rows :=
                   map (\<lambda>r. if mbid r = mbid release_group
                            then r\<lparr>name := name release_group,
                                   artist_credit := artist_credit release_group,
                                   first_release_date := first_release_date release_group,
                                   last_updated := last_updated release_group\<rparr>
                            else r)
                       (release_group_meta_rows s)\<rparr>
      | None \<Rightarrow>
          s\<lparr>release_group_rows := release_group_rows s @ [mbid release_group],
            release_group_meta_rows := release_group_meta_rows s @
              [\<lparr>mbid = mbid release_group, name = name release_group,
                artist_credit = artist_credit release_group,
                last_updated = last_updated release_group,
                first_release_date = first_release_date release_group\<rparr>]\<rparr>)"

definition conn_add_link_recording_release_group :: "mbid \<Rightarrow> mbid \<Rightarrow> store \<Rightarrow> store" where
  "conn_add_link_recording_release_group recording_mbid release_group_mbid s =
     (if [r \<leftarrow> recording_release_group_rows s.
            fst r = recording_mbid \<and> snd r = release_group_mbid] = []
      then s\<lparr>recording_release_group_rows :=
               recording_release_group_rows s @ [(recording_mbid, release_group_mbid)]\<rparr>
      else s)"

text \<open>
  \<^verbatim>\<open>cache_musicbrainz_metadata\<close>: the recording's own metadata, then, for every value of
  its release-group map in the map's order, the release group's metadata and the link.
\<close>

definition cache_musicbrainz_metadata :: "recording \<Rightarrow> store \<Rightarrow> store" where
  "cache_musicbrainz_metadata recording s =
     fold (\<lambda>rg s'. conn_add_link_recording_release_group (mbid recording) (mbid rg)
                      (conn_add_release_group_meta rg s'))
          (map snd (release_group_map recording))
          (conn_add_recording_meta recording s)"

section \<open>Items and their payload\<close>

text \<open>
  \<^verbatim>\<open>json.dumps(data, cls=JsonDateTimeEncoder)\<close> with the library's default options.
  A Python string is modelled by a \<open>string\<close> whose characters are its code points
  (below 256); with \<^verbatim>\<open>ensure_ascii\<close> every character outside the printable ASCII range
  is written as an escape.
\<close>

definition digit_char :: "nat \<Rightarrow> char" where
  "digit_char d = char_of (of_char CHR ''0'' + d)"

fun str_nat :: "nat \<Rightarrow> string" where
  "str_nat n = (if n < 10 then [digit_char n] else str_nat (n div 10) @ [digit_char (n mod 10)])"

declare str_nat.simps [simp del]

definition str_int :: "int \<Rightarrow> string" where
  "str_int i = (if i < 0 then CHR ''-'' # str_nat (nat (- i)) else str_nat (nat i))"

text \<open>\<^verbatim>\<open>%0wd\<close>: decimal, padded with zeros on the left to at least \<open>w\<close> characters.\<close>

definition zero_pad :: "nat \<Rightarrow> nat \<Rightarrow> string" where
  "zero_pad w n = replicate (w - length (str_nat n)) CHR ''0'' @ str_nat n"

definition hex_char :: "nat \<Rightarrow> char" where
  "hex_char d = (if d < 10 then digit_char d else char_of (of_char CHR ''a'' + (d - 10)))"

text \<open>
  \<^verbatim>\<open>datetime.isoformat()\<close>: \<^verbatim>\<open>YYYY-MM-DDTHH:MM:SS\<close>, then the microseconds when they are
  not zero, then the offset from UTC (here in minutes) when the value has a time zone.
\<close>

definition isoformat :: "datetime \<Rightarrow> string" where
  "isoformat d =
     zero_pad 4 (year d) @ ''-'' @ zero_pad 2 (month d) @ ''-'' @ zero_pad 2 (day d) @ ''T'' @
     zero_pad 2 (hour d) @ '':'' @ zero_pad 2 (minute d) @ '':'' @ zero_pad 2 (second d) @
     (if microsecond d \<noteq> 0 then ''.'' @ zero_pad 6 (microsecond d) else []) @
     (case utcoffset d of
        None \<Rightarrow> []
      | Some off \<Rightarrow>
          (if off < 0 then ''-'' else ''+'') @
          zero_pad 2 (nat \<bar>off\<bar> div 60) @ '':'' @ zero_pad 2 (nat \<bar>off\<bar> mod 60))"

definition json_escape_char :: "char \<Rightarrow> string" where
  "json_escape_char c =
     (if c = CHR 0x22 then [CHR 0x5C, CHR 0x22]
      else if c = CHR 0x5C then [CHR 0x5C, CHR 0x5C]
      else if c = CHR 0x0A then [CHR 0x5C, CHR ''n'']
      else if c = CHR 0x0D then [CHR 0x5C, CHR ''r'']
      else if c = CHR 0x09 then [CHR 0x5C, CHR ''t'']
      else if c = CHR 0x08 then [CHR 0x5C, CHR ''b'']
      else if c = CHR 0x0C then [CHR 0x5C, CHR ''f'']
      else if (of_char c :: nat) < 32 \<or> (of_char c :: nat) > 126
      then [CHR 0x5C, CHR ''u'', CHR ''0'', CHR ''0'',
            hex_char ((of_char c :: nat) div 16), hex_char ((of_char c :: nat) mod 16)]
      else [c])"

definition json_string :: "string \<Rightarrow> string" where
  "json_string s = [CHR 0x22] @ concat (map json_escape_char s) @ [CHR 0x22]"

text \<open>
  \<^verbatim>\<open>JsonDateTimeEncoder.default\<close>, called by the encoder for an object it has no encoding
  of its own for: a datetime becomes its ISO-8601 string, which the encoder then writes
  as a JSON string; anything else is handed to \<^verbatim>\<open>JSONEncoder.default\<close>, which raises
  \<^verbatim>\<open>TypeError\<close>.
\<close>

definition JsonDateTimeEncoder_default :: "pyobj \<Rightarrow> exn + string" where
  "JsonDateTimeEncoder_default obj =
     (case obj of
        PyDateTime d \<Rightarrow> Inr (isoformat d)
      | _ \<Rightarrow> Inl (TypeError ''Object is not JSON serializable''))"

text \<open>
  The key of a dictionary entry must be a string, a number, a boolean or \<^verbatim>\<open>None\<close>;
  the encoder does not ask \<^verbatim>\<open>default\<close> about any other key, it raises.
\<close>

definition json_key :: "pyobj \<Rightarrow> exn + string" where
  "json_key k =
     (case k of
        PyStr s \<Rightarrow> Inr s
      | PyBool b \<Rightarrow> Inr (if b then ''true'' else ''false'')
      | PyNone \<Rightarrow> Inr ''null''
      | PyInt i \<Rightarrow> Inr (str_int i)
      | _ \<Rightarrow> Inl (TypeError ''keys must be str, int, float, bool or None''))"

definition join :: "string \<Rightarrow> string list \<Rightarrow> string" where
  "join sep xs = (case xs of [] \<Rightarrow> [] | x # rest \<Rightarrow> x @ concat (map (\<lambda>y. sep @ y) rest))"

fun json_dumps :: "pyobj \<Rightarrow> exn + string"
  and json_dumps_list :: "pyobj list \<Rightarrow> exn + string list"
  and json_dumps_items :: "(pyobj \<times> pyobj) list \<Rightarrow> exn + string list" where
  "json_dumps PyNone = Inr ''null''"
| "json_dumps (PyBool b) = Inr (if b then ''true'' else ''false'')"
| "json_dumps (PyInt i) = Inr (str_int i)"
| "json_dumps (PyStr s) = Inr (json_string s)"
| "json_dumps (PyList xs) =
     (case json_dumps_list xs of
        Inl e \<Rightarrow> Inl e
      | Inr parts \<Rightarrow> Inr (''['' @ join '', '' parts @ '']''))"
| "json_dumps (PyDict kvs) =
     (case json_dumps_items kvs of
        Inl e \<Rightarrow> Inl e
      | Inr parts \<Rightarrow> Inr (''{'' @ join '', '' parts @ ''}''))"
| "json_dumps (PyDateTime d) =
     (case JsonDateTimeEncoder_default (PyDateTime d) of
        Inl e \<Rightarrow> Inl e
      | Inr s \<Rightarrow> Inr (json_string s))"
| "json_dumps (PyObject r) =
     (case JsonDateTimeEncoder_default (PyObject r) of
        Inl e \<Rightarrow> Inl e
      | Inr s \<Rightarrow> Inr (json_string s))"
| "json_dumps_list [] = Inr []"
| "json_dumps_list (x # xs) =
     (case json_dumps x of
        Inl e \<Rightarrow> Inl e
      | Inr p \<Rightarrow> (case json_dumps_list xs of Inl e \<Rightarrow> Inl e | Inr ps \<Rightarrow> Inr (p # ps)))"
| "json_dumps_items [] = Inr []"
| "json_dumps_items (kv # kvs) =
     (case json_key (fst kv) of
        Inl e \<Rightarrow> Inl e
      | Inr k \<Rightarrow>
          (case json_dumps (snd kv) of
             Inl e \<Rightarrow> Inl e
           | Inr v \<Rightarrow>
               (case json_dumps_items kvs of
                  Inl e \<Rightarrow> Inl e
                | Inr ps \<Rightarrow> Inr ((json_string k @ '': '' @ v) # ps))))"

text \<open>The truth value Python gives an object in \<^verbatim>\<open>if data:\<close>.\<close>

fun truthy :: "pyobj \<Rightarrow> bool" where
  "truthy PyNone = False"
| "truthy (PyBool b) = b"
| "truthy (PyInt i) = (i \<noteq> 0)"
| "truthy (PyStr s) = (s \<noteq> [])"
| "truthy (PyDateTime d) = True"
| "truthy (PyList xs) = (xs \<noteq> [])"
| "truthy (PyDict kvs) = (kvs \<noteq> [])"
| "truthy (PyObject r) = True"

fun is_dict_or_list :: "pyobj \<Rightarrow> bool" where
  "is_dict_or_list (PyDict kvs) = True"
| "is_dict_or_list (PyList xs) = True"
| "is_dict_or_list _ = False"

text \<open>
  \<^verbatim>\<open>connection.execute(query, params)\<close> hands every parameter to the database driver
  (psycopg2: \<^verbatim>\<open>metadb/db.py\<close> sets the isolation level through its connection), which
  turns it into SQL.  The driver has an adapter for \<^verbatim>\<open>None\<close>, booleans, integers,
  strings and datetimes, and for a list whose elements it can adapt (as an array); it
  has none for a dictionary or for an object of another class, and then raises
  \<^verbatim>\<open>ProgrammingError\<close> (``can't adapt type''), which the engine raises again as its own
  \<^verbatim>\<open>ProgrammingError\<close>.
\<close>

fun adaptable :: "pyobj \<Rightarrow> bool"
  and adaptable_list :: "pyobj list \<Rightarrow> bool" where
  "adaptable PyNone = True"
| "adaptable (PyBool b) = True"
| "adaptable (PyInt i) = True"
| "adaptable (PyStr s) = True"
| "adaptable (PyDateTime d) = True"
| "adaptable (PyList xs) = adaptable_list xs"
| "adaptable (PyDict kvs) = False"
| "adaptable (PyObject r) = False"
| "adaptable_list [] = True"
| "adaptable_list (x # xs) = (adaptable x \<and> adaptable_list xs)"

text \<open>
  \<^verbatim>\<open>_add_item_w_connection\<close>.  The result is the returned boolean or the exception, with
  the store as the statements executed so far have left it inside the transaction.
  The value bound to \<^verbatim>\<open>:data\<close> is the JSON text when the payload is a dictionary or a
  list, and the payload itself otherwise.
\<close>

definition conn_add_item :: "scraper_row \<Rightarrow> mbid \<Rightarrow> pyobj \<Rightarrow> store \<Rightarrow> (exn + bool) \<times> store" where
  "conn_add_item scraper m data s =
     (if [r \<leftarrow> item_rows s. item_mbid r = m \<and> item_scraper_id r = scraper_id scraper] = []
      then
        (let i = item_id_seq s;
             s1 = s\<lparr>item_rows := item_rows s @
                      [\<lparr>item_id = i, item_scraper_id = scraper_id scraper, item_mbid = m\<rparr>],
                    item_id_seq := i + 1\<rparr>
         in if truthy data
            then
              (case (if is_dict_or_list data
                     then (case json_dumps data of
                             Inl e \<Rightarrow> Inl e
                           | Inr encoded \<Rightarrow> Inr (PyStr encoded))
                     else Inr data) of
                 Inl e \<Rightarrow> (Inl e, s1)
               | Inr param \<Rightarrow>
                   if adaptable param
                   then (Inr True,
                         s1\<lparr>item_data_rows := item_data_rows s1 @
                              [\<lparr>item_data_item_id = i, item_data_data = param\<rparr>]\<rparr>)
                   else (Inl (ProgrammingError ''can't adapt type''), s1))
            else (Inr True, s1))
      else (Inr False, s))"

definition add_item :: "scraper_row \<Rightarrow> mbid \<Rightarrow> pyobj \<Rightarrow> store \<Rightarrow> (exn + bool) \<times> store" where
  "add_item scraper m data s = engine_begin (conn_add_item scraper m data) s"

section \<open>Queries\<close>

text \<open>
  The joins of the \<^verbatim>\<open>SELECT\<close> statements.  An inner join pairs every left row with each
  right row the condition accepts; a left join keeps a left row that finds no partner,
  paired with \<open>None\<close> (the partner's columns are then \<^verbatim>\<open>NULL\<close>).
\<close>

definition inner_join :: "'a list \<Rightarrow> 'b list \<Rightarrow> ('a \<Rightarrow> 'b \<Rightarrow> bool) \<Rightarrow> ('a \<times> 'b) list" where
  "inner_join xs ys on = concat (map (\<lambda>x. map (\<lambda>y. (x, y)) [y \<leftarrow> ys. on x y]) xs)"

definition left_join :: "'a list \<Rightarrow> 'b list \<Rightarrow> ('a \<Rightarrow> 'b \<Rightarrow> bool) \<Rightarrow> ('a \<times> 'b option) list" where
  "left_join xs ys on =
     concat (map (\<lambda>x. let partners = [y \<leftarrow> ys. on x y]
                      in if partners = [] then [(x, None)]
                         else map (\<lambda>y. (x, Some y)) partners) xs)"

text \<open>
  A result row is the dictionary \<^verbatim>\<open>dict(r)\<close>: the selected columns by name, in the order
  of the \<^verbatim>\<open>SELECT\<close> list.
\<close>

type_synonym result_row = "(string \<times> string) list"

definition get_unprocessed_recordings_for_scraper ::
  "scraper_row \<Rightarrow> mbid option \<Rightarrow> store \<Rightarrow> result_row list" where
  "get_unprocessed_recordings_for_scraper scraper mbid_param s =
     (let with_meta = inner_join (recording_rows s) (recording_meta_rows s)
                        (\<lambda>r m. r = mbid m);
          with_rr = left_join with_meta (recording_redirect_rows s)
                        (\<lambda>(r, m) rr. r = fst rr);
          with_item = left_join with_rr (item_rows s)
                        (\<lambda>((r, m), rr) i. r = item_mbid i \<and> item_scraper_id i = scraper_id scraper);
          selected = [row \<leftarrow> with_item.
                        (case row of (((r, m), rr), i) \<Rightarrow>
                           i = None \<and> rr = None \<and>
                           (case mbid_param of None \<Rightarrow> True | Some x \<Rightarrow> r = x))]
      in map (\<lambda>(((r, m), rr), i).
                [(''mbid'', r), (''name'', name m), (''artist_credit'', artist_credit m)])
             selected)"

definition get_unprocessed_release_groups_for_scraper ::
  "scraper_row \<Rightarrow> mbid option \<Rightarrow> store \<Rightarrow> result_row list" where
  "get_unprocessed_release_groups_for_scraper scraper mbid_param s =
     (let with_meta = inner_join (release_group_rows s) (release_group_meta_rows s)
                        (\<lambda>r m. r = mbid m);
          with_item = left_join with_meta (item_rows s)
                        (\<lambda>(r, m) i. r = item_mbid i \<and> item_scraper_id i = scraper_id scraper);
          selected = [row \<leftarrow> with_item.
                        (case row of ((r, m), i) \<Rightarrow>
                           i = None \<and>
                           (case mbid_param of None \<Rightarrow> True | Some x \<Rightarrow> r = x))]
      in map (\<lambda>((r, m), i).
                [(''mbid'', r), (''name'', name m), (''artist_credit'', artist_credit m),
                 (''first_release_date'', first_release_date m)])
             selected)"

definition get_recordings_missing_meta :: "store \<Rightarrow> mbid list" where
  "get_recordings_missing_meta s =
     (let with_meta = left_join (recording_rows s) (recording_meta_rows s)
                        (\<lambda>r m. r = mbid m);
          with_rr = left_join with_meta (recording_redirect_rows s)
                        (\<lambda>(r, m) rr. r = fst rr);
          selected = [row \<leftarrow> with_rr.
                        (case row of ((r, m), rr) \<Rightarrow> m = None \<and> rr = None)]
      in map (\<lambda>((r, m), rr). r) selected)"

text \<open>The value a result row has under a key (\<^verbatim>\<open>row["mbid"]\<close>).\<close>

definition row_mbid :: "result_row \<Rightarrow> string option" where
  "row_mbid row = map_of row ''mbid''"

section \<open>Calls and reachable stores\<close>

text \<open>
  The calls of the data-access module that write to the tables modelled here, and the
  store each leaves behind once its transaction has ended.  (The token functions only
  touch the token table.)
\<close>

datatype call =
    AddSource string
  | AddRecordingMbids "mbid list"
  | AddScraper source_row string string int string
  | AddItem scraper_row mbid pyobj
  | CheckMbidRedirect mbid mbid
  | CacheMetadata recording

fun perform :: "call \<Rightarrow> store \<Rightarrow> store" where
  "perform (AddSource nm) s = snd (add_source nm s)"
| "perform (AddRecordingMbids mbids) s = snd (add_recording_mbids mbids s)"
| "perform (AddScraper source module mb_type version description) s =
     snd (add_scraper source module mb_type version description s)"
| "perform (AddItem scraper m data) s = snd (add_item scraper m data s)"
| "perform (CheckMbidRedirect query_mbid actual_mbid) s =
     musicbrainz_check_mbid_redirect query_mbid actual_mbid s"
| "perform (CacheMetadata recording) s = cache_musicbrainz_metadata recording s"

definition perform_all :: "call list \<Rightarrow> store \<Rightarrow> store" where
  "perform_all calls s = fold perform calls s"

section \<open>The script runner\<close>

text \<open>
  \<^verbatim>\<open>run_sql_script_without_transaction\<close> of \<^verbatim>\<open>metadb/db.py\<close>.  What the store does with
  a statement is a parameter: \<open>execute line d\<close> is the database after the statement, or
  the exception \<^verbatim>\<open>connection.execute(line)\<close> raises.  The runner's own effects are
  recorded beside the database: the statements it has handed to the connection, what it
  has printed, the isolation level of the connection and whether it has been closed.
\<close>

record 'd runner =
  database :: 'd
  executed :: "string list"
  printed :: "string list"
  isolation_level :: nat
  closed :: bool

definition startswith :: "string \<Rightarrow> string \<Rightarrow> bool" where
  "startswith line pre = (take (length pre) line = pre)"

fun execute_lines ::
  "(string \<Rightarrow> 'd \<Rightarrow> exn + 'd) \<Rightarrow> string list \<Rightarrow> 'd runner \<Rightarrow> exn option \<times> 'd runner" where
  "execute_lines execute [] st = (None, st)"
| "execute_lines execute (line # lines) st =
     (if line \<noteq> [] \<and> \<not> startswith line ''--''
      then
        (case execute line (database st) of
           Inl e \<Rightarrow> (Some e, st\<lparr>executed := executed st @ [line]\<rparr>)
         | Inr d \<Rightarrow>
             execute_lines execute lines (st\<lparr>database := d, executed := executed st @ [line]\<rparr>))
      else execute_lines execute lines st)"

text \<open>The \<^verbatim>\<open>finally\<close> block.\<close>

definition restore_and_close :: "'d runner \<Rightarrow> 'd runner" where
  "restore_and_close st = st\<lparr>isolation_level := 1, closed := True\<rparr>"

definition run_sql_script_without_transaction ::
  "(string \<Rightarrow> 'd \<Rightarrow> exn + 'd) \<Rightarrow> string list \<Rightarrow> 'd runner \<Rightarrow> (exn + bool) \<times> 'd runner" where
  "run_sql_script_without_transaction execute lines st =
     (case execute_lines execute lines (st\<lparr>isolation_level := 0, closed := False\<rparr>) of
        (None, st') \<Rightarrow> (Inr True, restore_and_close st')
      | (Some (ProgrammingError msg), st') \<Rightarrow>
          (Inr False, restore_and_close (st'\<lparr>printed := printed st' @ [''Error: '' @ msg]\<rparr>))
      | (Some e, st') \<Rightarrow> (Inl e, restore_and_close st'))"

section \<open>Predicates on stores and payloads\<close>

text \<open>Every row of \<^verbatim>\<open>release_group_meta\<close> has its MBID in \<^verbatim>\<open>release_group\<close>.\<close>

definition rg_identities_cover_meta :: "store \<Rightarrow> bool" where
  "rg_identities_cover_meta s \<longleftrightarrow>
     list_all (\<lambda>m. mbid m \<in> set (release_group_rows s)) (release_group_meta_rows s)"



section \<open>The export script\<close>

text \<open>
  \<^verbatim>\<open>dump_unprocessed.py\<close> has no model here, because it has no behaviour to model: the
  header \<^verbatim>\<open>elif scraper["mb_type"] == "release_group"\<close> on its line 29 lacks the colon,
  so Python rejects the file with \<^verbatim>\<open>SyntaxError\<close> when it compiles it, before \<^verbatim>\<open>main\<close>
  or any other statement of the file runs.  The helper \<^verbatim>\<open>metadb.util.chunks\<close> that
  \<^verbatim>\<open>main\<close> would call to split the rows is not among the sources either.  The two
  queries the script would export are modelled above.
\<close>

section \<open>Properties\<close>

text \<open>
  Claim C5.  Registering a scraper whose \<^verbatim>\<open>mb_type\<close> is neither \<^verbatim>\<open>recording\<close> nor
  \<^verbatim>\<open>release_group\<close> raises the invalid-argument error (\<^verbatim>\<open>ValueError\<close>) and leaves the
  whole store as it was: the test is made before the transaction is opened, so no
  scraper row is written.
\<close>

theorem add_scraper_invalid_mb_type:
  "mb_type \<noteq> ''recording'' \<Longrightarrow> mb_type \<noteq> ''release_group'' \<Longrightarrow>
   add_scraper source module mb_type version description s =
     (Inl (ValueError ''Invalid mb_type. Must be one of [recording, release_group]''), s)"
  by (simp add: add_scraper_def)

theorem add_scraper_invalid_mb_type_witness:
  "add_scraper \<lparr>source_id = 1, source_name = ''mb''\<rparr> ''scrapers.mb'' ''album'' 1 ''d'' empty_store =
     (Inl (ValueError ''Invalid mb_type. Must be one of [recording, release_group]''), empty_store)"
  using add_scraper_invalid_mb_type [of "''album''"] by simp

subsection \<open>Reading a row back\<close>

lemma fetchone_filter: "fetchone (filter P xs) = List.find P xs"
  by (induction xs) (auto simp: fetchone_def)

lemma find_map_overwrite:
  "List.find (\<lambda>r. f r = m) xs = Some e \<Longrightarrow> (\<And>r. f r = m \<Longrightarrow> f (g r) = m) \<Longrightarrow>
   List.find (\<lambda>r. f r = m) (map (\<lambda>r. if f r = m then g r else r) xs) = Some (g e)"
  by (induction xs) (auto split: if_splits)

lemma find_append_new:
  "List.find P xs = None \<Longrightarrow> P new \<Longrightarrow> List.find P (xs @ [new]) = Some new"
  by (induction xs) (auto split: if_splits)

lemma conn_get_recording_meta_find:
  "conn_get_recording_meta m s = List.find (\<lambda>r. mbid r = m) (recording_meta_rows s)"
  by (simp add: conn_get_recording_meta_def fetchone_filter)

lemma conn_get_release_group_meta_find:
  "conn_get_release_group_meta m s = List.find (\<lambda>r. mbid r = m) (release_group_meta_rows s)"
  by (simp add: conn_get_release_group_meta_def fetchone_filter)

lemma conn_get_recording_meta_None:
  "conn_get_recording_meta m s = None \<longleftrightarrow> m \<notin> mbid ` set (recording_meta_rows s)"
  by (auto simp: conn_get_recording_meta_find find_None_iff)

lemma conn_get_release_group_meta_None:
  "conn_get_release_group_meta m s = None \<longleftrightarrow> m \<notin> mbid ` set (release_group_meta_rows s)"
  by (auto simp: conn_get_release_group_meta_find find_None_iff)

text \<open>After an upsert the row read back for the MBID is at least as new as the update.\<close>

lemma get_after_add_recording_meta:
  "\<exists>e. conn_get_recording_meta (mbid u) (conn_add_recording_meta u s) = Some e \<and>
       last_updated e \<ge> last_updated u"
proof (cases "List.find (\<lambda>r. mbid r = mbid u) (recording_meta_rows s)")
  case None
  then show ?thesis
    by (simp add: conn_add_recording_meta_def conn_get_recording_meta_find find_append_new)
next
  case (Some e)
  then show ?thesis
    by (cases "last_updated u \<le> last_updated e")
      (simp_all add: conn_add_recording_meta_def conn_get_recording_meta_find
         find_map_overwrite [where g = "\<lambda>r. r\<lparr>name := name u,
           artist_credit := artist_credit u, last_updated := last_updated u\<rparr>"])
qed

lemma get_after_add_release_group_meta:
  "\<exists>e. conn_get_release_group_meta (mbid u) (conn_add_release_group_meta u s) = Some e \<and>
       last_updated e \<ge> last_updated u"
proof (cases "List.find (\<lambda>r. mbid r = mbid u) (release_group_meta_rows s)")
  case None
  then show ?thesis
    by (simp add: conn_add_release_group_meta_def conn_get_release_group_meta_find
        find_append_new)
next
  case (Some e)
  then show ?thesis
    by (cases "last_updated u \<le> last_updated e")
      (simp_all add: conn_add_release_group_meta_def conn_get_release_group_meta_find
         find_map_overwrite [where g = "\<lambda>r. r\<lparr>name := name u,
           artist_credit := artist_credit u,
           first_release_date := first_release_date u,
           last_updated := last_updated u\<rparr>"])
qed

lemma add_recording_meta_stale:
  "conn_get_recording_meta (mbid u) s = Some e \<Longrightarrow> last_updated u \<le> last_updated e \<Longrightarrow>
   conn_add_recording_meta u s = s"
  by (simp add: conn_add_recording_meta_def)

lemma add_release_group_meta_stale:
  "conn_get_release_group_meta (mbid u) s = Some e \<Longrightarrow> last_updated u \<le> last_updated e \<Longrightarrow>
   conn_add_release_group_meta u s = s"
  by (simp add: conn_add_release_group_meta_def)

lemma add_recording_meta_absorbs:
  assumes "mbid u1 = mbid u2" and "last_updated u1 \<le> last_updated u2"
  shows "conn_add_recording_meta u1 (conn_add_recording_meta u2 s) =
         conn_add_recording_meta u2 s"
proof -
  obtain e where "conn_get_recording_meta (mbid u2) (conn_add_recording_meta u2 s) = Some e"
    and "last_updated e \<ge> last_updated u2"
    using get_after_add_recording_meta by blast
  with assms show ?thesis
    by (intro add_recording_meta_stale [where e = e]) auto
qed

lemma add_release_group_meta_absorbs:
  assumes "mbid u1 = mbid u2" and "last_updated u1 \<le> last_updated u2"
  shows "conn_add_release_group_meta u1 (conn_add_release_group_meta u2 s) =
         conn_add_release_group_meta u2 s"
proof -
  obtain e where
    "conn_get_release_group_meta (mbid u2) (conn_add_release_group_meta u2 s) = Some e"
    and "last_updated e \<ge> last_updated u2"
    using get_after_add_release_group_meta by blast
  with assms show ?thesis
    by (intro add_release_group_meta_stale [where e = e]) auto
qed

subsection \<open>Metadata upserts\<close>

text \<open>
  Claim C1.  The upsert of a recording's metadata \<open>u\<close> (keys \<^verbatim>\<open>mbid\<close>, \<^verbatim>\<open>name\<close>,
  \<^verbatim>\<open>artist_credit\<close>, \<^verbatim>\<open>last_updated\<close>): when \<^verbatim>\<open>recording_meta\<close> has no row for the MBID,
  a row with exactly these four values is inserted and nothing else changes; when the row
  read for the MBID has a \<^verbatim>\<open>last_updated\<close> that is greater than or equal to the incoming
  one, the store stays exactly as it was; otherwise the name, the artist credit and the
  time of the stored row are overwritten with the incoming values, its MBID is kept and
  nothing else changes.  No branch of the function raises: it returns a store in every
  case.
\<close>

theorem conn_add_recording_meta_upsert:
  "(mbid u \<notin> mbid ` set (recording_meta_rows s) \<longrightarrow>
      conn_add_recording_meta u s =
        s\<lparr>recording_meta_rows := recording_meta_rows s @
            [\<lparr>mbid = mbid u, name = name u, artist_credit = artist_credit u,
              last_updated = last_updated u\<rparr>]\<rparr>) \<and>
   (\<forall>e. conn_get_recording_meta (mbid u) s = Some e \<and> last_updated e \<ge> last_updated u \<longrightarrow>
      conn_add_recording_meta u s = s) \<and>
   (\<forall>e. conn_get_recording_meta (mbid u) s = Some e \<and> last_updated e < last_updated u \<longrightarrow>
      conn_add_recording_meta u s =
        s\<lparr>recording_meta_rows :=
            map (\<lambda>r. if mbid r = mbid u
                     then \<lparr>mbid = mbid r, name = name u, artist_credit = artist_credit u,
                           last_updated = last_updated u\<rparr>
                     else r)
                (recording_meta_rows s)\<rparr>)"
proof (intro conjI allI impI)
  assume "mbid u \<notin> mbid ` set (recording_meta_rows s)"
  then have "conn_get_recording_meta (mbid u) s = None"
    by (simp add: conn_get_recording_meta_None)
  then show "conn_add_recording_meta u s =
        s\<lparr>recording_meta_rows := recording_meta_rows s @
            [\<lparr>mbid = mbid u, name = name u, artist_credit = artist_credit u,
              last_updated = last_updated u\<rparr>]\<rparr>"
    by (simp add: conn_add_recording_meta_def)
next
  fix e
  assume "conn_get_recording_meta (mbid u) s = Some e \<and> last_updated e \<ge> last_updated u"
  then show "conn_add_recording_meta u s = s"
    by (simp add: conn_add_recording_meta_def)
next
  fix e
  assume "conn_get_recording_meta (mbid u) s = Some e \<and> last_updated e < last_updated u"
  then show "conn_add_recording_meta u s =
        s\<lparr>recording_meta_rows :=
            map (\<lambda>r. if mbid r = mbid u
                     then \<lparr>mbid = mbid r, name = name u, artist_credit = artist_credit u,
                           last_updated = last_updated u\<rparr>
                     else r)
                (recording_meta_rows s)\<rparr>"
    by (simp add: conn_add_recording_meta_def)
qed

theorem conn_add_recording_meta_upsert_witness:
  "conn_add_recording_meta
     \<lparr>mbid = ''r1'', name = ''N'', artist_credit = ''A'', last_updated = 5\<rparr> empty_store =
     empty_store\<lparr>recording_meta_rows :=
       [\<lparr>mbid = ''r1'', name = ''N'', artist_credit = ''A'', last_updated = 5\<rparr>]\<rparr> \<and>
   conn_add_recording_meta
     \<lparr>mbid = ''r1'', name = ''Old'', artist_credit = ''B'', last_updated = 5\<rparr>
     (empty_store\<lparr>recording_meta_rows :=
       [\<lparr>mbid = ''r1'', name = ''N'', artist_credit = ''A'', last_updated = 5\<rparr>]\<rparr>) =
     empty_store\<lparr>recording_meta_rows :=
       [\<lparr>mbid = ''r1'', name = ''N'', artist_credit = ''A'', last_updated = 5\<rparr>]\<rparr> \<and>
   conn_add_recording_meta
     \<lparr>mbid = ''r1'', name = ''New'', artist_credit = ''C'', last_updated = 7\<rparr>
     (empty_store\<lparr>recording_meta_rows :=
       [\<lparr>mbid = ''r1'', name = ''N'', artist_credit = ''A'', last_updated = 5\<rparr>,
        \<lparr>mbid = ''r2'', name = ''M'', artist_credit = ''A'', last_updated = 1\<rparr>]\<rparr>) =
     empty_store\<lparr>recording_meta_rows :=
       [\<lparr>mbid = ''r1'', name = ''New'', artist_credit = ''C'', last_updated = 7\<rparr>,
        \<lparr>mbid = ''r2'', name = ''M'', artist_credit = ''A'', last_updated = 1\<rparr>]\<rparr>"
  using
    conn_add_recording_meta_upsert
      [of "\<lparr>mbid = ''r1'', name = ''N'', artist_credit = ''A'', last_updated = 5\<rparr>" empty_store]
    conn_add_recording_meta_upsert
      [of "\<lparr>mbid = ''r1'', name = ''Old'', artist_credit = ''B'', last_updated = 5\<rparr>"
          "empty_store\<lparr>recording_meta_rows :=
             [\<lparr>mbid = ''r1'', name = ''N'', artist_credit = ''A'', last_updated = 5\<rparr>]\<rparr>"]
    conn_add_recording_meta_upsert
      [of "\<lparr>mbid = ''r1'', name = ''New'', artist_credit = ''C'', last_updated = 7\<rparr>"
          "empty_store\<lparr>recording_meta_rows :=
             [\<lparr>mbid = ''r1'', name = ''N'', artist_credit = ''A'', last_updated = 5\<rparr>,
              \<lparr>mbid = ''r2'', name = ''M'', artist_credit = ''A'', last_updated = 1\<rparr>]\<rparr>"]
  by (simp add: empty_store_def conn_get_recording_meta_def fetchone_def)

text \<open>
  Claim C2.  For two upserts of the same MBID with times \<open>t1 < t2\<close>, applying the one
  with \<open>t2\<close> and then the one with \<open>t1\<close> leaves the store that the one with \<open>t2\<close>
  alone leaves; and applying one upsert twice leaves the store that applying it once
  leaves.  Both hold for recording metadata and for release-group metadata.
\<close>

theorem meta_upsert_stale_rejected_and_idempotent:
  "(mbid r1 = mbid r2 \<and> last_updated r1 < last_updated r2 \<longrightarrow>
      conn_add_recording_meta r1 (conn_add_recording_meta r2 s) =
      conn_add_recording_meta r2 s) \<and>
   conn_add_recording_meta r (conn_add_recording_meta r s) = conn_add_recording_meta r s \<and>
   (mbid g1 = mbid g2 \<and> last_updated g1 < last_updated g2 \<longrightarrow>
      conn_add_release_group_meta g1 (conn_add_release_group_meta g2 s) =
      conn_add_release_group_meta g2 s) \<and>
   conn_add_release_group_meta g (conn_add_release_group_meta g s) =
     conn_add_release_group_meta g s"
  by (simp add: add_recording_meta_absorbs add_release_group_meta_absorbs)

theorem meta_upsert_stale_rejected_and_idempotent_witness:
  "conn_add_recording_meta
     \<lparr>mbid = ''r1'', name = ''Old'', artist_credit = ''A'', last_updated = 3\<rparr>
     (conn_add_recording_meta
        \<lparr>mbid = ''r1'', name = ''New'', artist_credit = ''A'', last_updated = 8\<rparr> empty_store) =
   empty_store\<lparr>recording_meta_rows :=
     [\<lparr>mbid = ''r1'', name = ''New'', artist_credit = ''A'', last_updated = 8\<rparr>]\<rparr> \<and>
   conn_add_release_group_meta
     \<lparr>mbid = ''g1'', name = ''Old'', artist_credit = ''A'', last_updated = 3,
       first_release_date = ''1999''\<rparr>
     (conn_add_release_group_meta
        \<lparr>mbid = ''g1'', name = ''New'', artist_credit = ''A'', last_updated = 8,
          first_release_date = ''2001''\<rparr> empty_store) =
   empty_store\<lparr>release_group_rows := [''g1''], release_group_meta_rows :=
     [\<lparr>mbid = ''g1'', name = ''New'', artist_credit = ''A'', last_updated = 8,
       first_release_date = ''2001''\<rparr>]\<rparr>"
  using meta_upsert_stale_rejected_and_idempotent
    [of "\<lparr>mbid = ''r1'', name = ''Old'', artist_credit = ''A'', last_updated = 3\<rparr>"
        "\<lparr>mbid = ''r1'', name = ''New'', artist_credit = ''A'', last_updated = 8\<rparr>"
        empty_store
        "\<lparr>mbid = ''r1'', name = ''New'', artist_credit = ''A'', last_updated = 8\<rparr>"
        "\<lparr>mbid = ''g1'', name = ''Old'', artist_credit = ''A'', last_updated = 3,
          first_release_date = ''1999''\<rparr>"
        "\<lparr>mbid = ''g1'', name = ''New'', artist_credit = ''A'', last_updated = 8,
          first_release_date = ''2001''\<rparr>"
        "\<lparr>mbid = ''g1'', name = ''New'', artist_credit = ''A'', last_updated = 8,
          first_release_date = ''2001''\<rparr>"]
  by (simp add: empty_store_def conn_add_recording_meta_def conn_get_recording_meta_def
      conn_add_release_group_meta_def conn_get_release_group_meta_def fetchone_def)

subsection \<open>What each call leaves alone\<close>

lemma conn_add_recording_mbids_frame:
  "snd (conn_add_recording_mbids ms s) =
     s\<lparr>recording_rows := recording_rows (snd (conn_add_recording_mbids ms s))\<rparr>"
proof (induction ms arbitrary: s)
  case Nil
  show ?case by simp
next
  case (Cons m ms)
  show ?case
  proof (cases "[r \<leftarrow> recording_rows s. r = m] = []")
    case True
    let ?s1 = "s\<lparr>recording_rows := recording_rows s @ [m]\<rparr>"
    have "snd (conn_add_recording_mbids (m # ms) s) = snd (conn_add_recording_mbids ms ?s1)"
      using True by (simp add: split_beta)
    moreover have "snd (conn_add_recording_mbids ms ?s1) =
        ?s1\<lparr>recording_rows := recording_rows (snd (conn_add_recording_mbids ms ?s1))\<rparr>"
      by (rule Cons.IH)
    ultimately show ?thesis by simp
  next
    case False
    then show ?thesis using Cons.IH [of s] by simp
  qed
qed

lemma conn_add_recording_mbids_rows:
  "set (recording_rows (snd (conn_add_recording_mbids ms s))) = set (recording_rows s) \<union> set ms"
proof (induction ms arbitrary: s)
  case Nil
  show ?case by simp
next
  case (Cons m ms)
  show ?case
  proof (cases "[r \<leftarrow> recording_rows s. r = m] = []")
    case True
    then show ?thesis using Cons.IH [of "s\<lparr>recording_rows := recording_rows s @ [m]\<rparr>"]
      by (simp add: split_beta)
  next
    case False
    then have "m \<in> set (recording_rows s)" by (auto simp: filter_empty_conv)
    then show ?thesis using False Cons.IH [of s] by auto
  qed
qed

lemma conn_add_recording_mbids_tables:
  "recording_redirect_rows (snd (conn_add_recording_mbids ms s)) = recording_redirect_rows s"
  "release_group_rows (snd (conn_add_recording_mbids ms s)) = release_group_rows s"
  "release_group_meta_rows (snd (conn_add_recording_mbids ms s)) = release_group_meta_rows s"
  by (subst conn_add_recording_mbids_frame, simp)+

lemma add_recording_mbids_tables:
  "recording_redirect_rows (snd (add_recording_mbids ms s)) = recording_redirect_rows s"
  "release_group_rows (snd (add_recording_mbids ms s)) = release_group_rows s"
  "release_group_meta_rows (snd (add_recording_mbids ms s)) = release_group_meta_rows s"
  by (simp_all add: add_recording_mbids_def conn_add_recording_mbids_tables)

lemma add_item_tables:
  "recording_redirect_rows (snd (add_item scraper m data s)) = recording_redirect_rows s"
  "release_group_rows (snd (add_item scraper m data s)) = release_group_rows s"
  "release_group_meta_rows (snd (add_item scraper m data s)) = release_group_meta_rows s"
  by (auto simp: add_item_def engine_begin_def conn_add_item_def rollback_def Let_def
      split: sum.splits)

lemma add_scraper_tables:
  "recording_redirect_rows (snd (add_scraper src module mb_type version description s)) =
     recording_redirect_rows s"
  "release_group_rows (snd (add_scraper src module mb_type version description s)) =
     release_group_rows s"
  "release_group_meta_rows (snd (add_scraper src module mb_type version description s)) =
     release_group_meta_rows s"
  by (auto simp: add_scraper_def Let_def)

lemma add_source_tables:
  "recording_redirect_rows (snd (add_source nm s)) = recording_redirect_rows s"
  "release_group_rows (snd (add_source nm s)) = release_group_rows s"
  "release_group_meta_rows (snd (add_source nm s)) = release_group_meta_rows s"
  by (auto simp: add_source_def Let_def)

lemma check_redirect_tables:
  "set (recording_redirect_rows s) \<subseteq>
     set (recording_redirect_rows (musicbrainz_check_mbid_redirect q a s))"
  "release_group_rows (musicbrainz_check_mbid_redirect q a s) = release_group_rows s"
  "release_group_meta_rows (musicbrainz_check_mbid_redirect q a s) = release_group_meta_rows s"
  by (auto simp: musicbrainz_check_mbid_redirect_def split_beta conn_add_recording_mbids_tables)

lemma conn_add_recording_meta_tables:
  "recording_redirect_rows (conn_add_recording_meta u s) = recording_redirect_rows s"
  "release_group_rows (conn_add_recording_meta u s) = release_group_rows s"
  "release_group_meta_rows (conn_add_recording_meta u s) = release_group_meta_rows s"
  by (auto simp: conn_add_recording_meta_def split: option.splits)

lemma conn_add_link_tables:
  "recording_redirect_rows (conn_add_link_recording_release_group r g s) =
     recording_redirect_rows s"
  "release_group_rows (conn_add_link_recording_release_group r g s) = release_group_rows s"
  "release_group_meta_rows (conn_add_link_recording_release_group r g s) =
     release_group_meta_rows s"
  by (auto simp: conn_add_link_recording_release_group_def)

lemma conn_add_release_group_meta_redirect:
  "recording_redirect_rows (conn_add_release_group_meta u s) = recording_redirect_rows s"
  by (auto simp: conn_add_release_group_meta_def split: option.splits)

lemma cache_fold_redirect:
  "recording_redirect_rows
     (fold (\<lambda>rg s'. conn_add_link_recording_release_group r (mbid rg)
                      (conn_add_release_group_meta rg s')) rgs s) =
   recording_redirect_rows s"
  by (induction rgs arbitrary: s)
    (simp_all add: conn_add_link_tables conn_add_release_group_meta_redirect)

text \<open>No call removes a redirect row.\<close>

lemma perform_redirect_mono:
  "set (recording_redirect_rows s) \<subseteq> set (recording_redirect_rows (perform c s))"
  by (cases c)
    (simp_all add: add_source_tables add_recording_mbids_tables add_scraper_tables
      add_item_tables check_redirect_tables cache_musicbrainz_metadata_def cache_fold_redirect
      conn_add_recording_meta_tables)

lemma perform_all_redirect_mono:
  "set (recording_redirect_rows s) \<subseteq> set (recording_redirect_rows (perform_all cs s))"
  unfolding perform_all_def
proof (induction cs arbitrary: s)
  case Nil
  show ?case by simp
next
  case (Cons c cs)
  show ?case using perform_redirect_mono [of s c] Cons.IH [of "perform c s"] by auto
qed

lemma check_redirect_row_present:
  "query_mbid \<noteq> actual_mbid \<Longrightarrow>
   (query_mbid, actual_mbid) \<in>
     set (recording_redirect_rows (musicbrainz_check_mbid_redirect query_mbid actual_mbid s))"
  by (auto simp: musicbrainz_check_mbid_redirect_def split_beta filter_empty_conv)

lemma check_redirect_recording_rows:
  "query_mbid \<noteq> actual_mbid \<Longrightarrow>
   set (recording_rows (musicbrainz_check_mbid_redirect query_mbid actual_mbid s)) \<subseteq>
     insert actual_mbid (set (recording_rows s)) \<and>
   set (recording_rows s) \<subseteq>
     set (recording_rows (musicbrainz_check_mbid_redirect query_mbid actual_mbid s))"
  using conn_add_recording_mbids_rows [of "[actual_mbid]" s]
  by (auto simp: musicbrainz_check_mbid_redirect_def split_beta)

subsection \<open>The rows a query returns\<close>

lemma set_inner_join:
  "set (inner_join xs ys on) = {(x, y). x \<in> set xs \<and> y \<in> set ys \<and> on x y}"
  by (auto simp: inner_join_def)

lemma set_left_join:
  "set (left_join xs ys on) =
     {(x, Some y) | x y. x \<in> set xs \<and> y \<in> set ys \<and> on x y} \<union>
     {(x, None) | x. x \<in> set xs \<and> (\<forall>y \<in> set ys. \<not> on x y)}"
  unfolding left_join_def Let_def
  by (auto simp: filter_empty_conv)

lemma unprocessed_recordings_mbid_iff:
  "Some x \<in> row_mbid ` set (get_unprocessed_recordings_for_scraper scraper p s) \<longleftrightarrow>
     x \<in> set (recording_rows s) \<and> x \<in> mbid ` set (recording_meta_rows s) \<and>
     x \<notin> fst ` set (recording_redirect_rows s) \<and>
     (\<forall>i \<in> set (item_rows s). \<not> (item_mbid i = x \<and> item_scraper_id i = scraper_id scraper)) \<and>
     (p = None \<or> p = Some x)"
  unfolding get_unprocessed_recordings_for_scraper_def Let_def row_mbid_def
  by (cases p) (auto simp: set_left_join set_inner_join image_iff)

lemma recordings_missing_meta_iff:
  "x \<in> set (get_recordings_missing_meta s) \<longleftrightarrow>
     x \<in> set (recording_rows s) \<and> x \<notin> mbid ` set (recording_meta_rows s) \<and>
     x \<notin> fst ` set (recording_redirect_rows s)"
  unfolding get_recordings_missing_meta_def Let_def
  by (auto simp: set_left_join image_iff)

subsection \<open>Redirects and the work queue\<close>

text \<open>
  Claim C3.  For distinct MBIDs \<open>A\<close> and \<open>B\<close>: once
  \<^verbatim>\<open>musicbrainz_check_mbid_redirect(A, B)\<close> has run, in whatever store, no row for \<open>A\<close>
  is returned by \<^verbatim>\<open>get_unprocessed_recordings_for_scraper\<close>, for any scraper and any
  \<^verbatim>\<open>mbid\<close> argument, after any further sequence of calls of the data-access module
  (among them calls that record an item for \<open>B\<close>, or none).
\<close>

theorem redirected_mbid_never_unprocessed:
  "A \<noteq> B \<Longrightarrow>
   Some A \<notin> row_mbid ` set (get_unprocessed_recordings_for_scraper scraper p
                 (perform_all calls (musicbrainz_check_mbid_redirect A B s)))"
proof -
  assume "A \<noteq> B"
  then have "(A, B) \<in> set (recording_redirect_rows (musicbrainz_check_mbid_redirect A B s))"
    by (rule check_redirect_row_present)
  then have "(A, B) \<in> set (recording_redirect_rows
                (perform_all calls (musicbrainz_check_mbid_redirect A B s)))"
    using perform_all_redirect_mono by blast
  then have "A \<in> fst ` set (recording_redirect_rows
                (perform_all calls (musicbrainz_check_mbid_redirect A B s)))"
    by force
  then show ?thesis
    by (simp add: unprocessed_recordings_mbid_iff)
qed

theorem redirected_mbid_never_unprocessed_witness:
  "map row_mbid
     (get_unprocessed_recordings_for_scraper
        \<lparr>scraper_id = 1, scraper_source_id = 1, scraper_module = ''m'',
          scraper_mb_type = ''recording'', scraper_version = 1, scraper_description = ''d''\<rparr>
        None
        (empty_store\<lparr>recording_rows := [''a'', ''b''],
           recording_meta_rows :=
             [\<lparr>mbid = ''a'', name = ''N'', artist_credit = ''C'', last_updated = 1\<rparr>,
              \<lparr>mbid = ''b'', name = ''M'', artist_credit = ''C'', last_updated = 1\<rparr>]\<rparr>)) =
     [Some ''a'', Some ''b''] \<and>
   Some ''a'' \<notin> row_mbid ` set
     (get_unprocessed_recordings_for_scraper
        \<lparr>scraper_id = 1, scraper_source_id = 1, scraper_module = ''m'',
          scraper_mb_type = ''recording'', scraper_version = 1, scraper_description = ''d''\<rparr>
        None
        (perform_all
           [AddItem \<lparr>scraper_id = 1, scraper_source_id = 1, scraper_module = ''m'',
                     scraper_mb_type = ''recording'', scraper_version = 1,
                     scraper_description = ''d''\<rparr> ''b'' PyNone]
           (musicbrainz_check_mbid_redirect ''a'' ''b''
              (empty_store\<lparr>recording_rows := [''a'', ''b''],
                 recording_meta_rows :=
                   [\<lparr>mbid = ''a'', name = ''N'', artist_credit = ''C'', last_updated = 1\<rparr>,
                    \<lparr>mbid = ''b'', name = ''M'', artist_credit = ''C'', last_updated = 1\<rparr>]\<rparr>))))"
  (is "?before \<and> ?after")
proof
  show ?before
    by (simp add: get_unprocessed_recordings_for_scraper_def inner_join_def left_join_def
        row_mbid_def empty_store_def)
next
  have distinct: "''a'' \<noteq> ''b''" by simp
  show ?after
    by (rule redirected_mbid_never_unprocessed [OF distinct])
qed

subsection \<open>Recordings without metadata\<close>

text \<open>
  Claim C6.  When \<^verbatim>\<open>recording\<close> holds an MBID \<open>R\<close> that has no row in
  \<^verbatim>\<open>recording_meta\<close> and no row in \<^verbatim>\<open>recording_redirect\<close>, no scraper's
  \<^verbatim>\<open>get_unprocessed_recordings_for_scraper\<close> returns a row for \<open>R\<close> (the query joins
  \<^verbatim>\<open>recording_meta\<close>), and \<^verbatim>\<open>get_recordings_missing_meta\<close> returns \<open>R\<close>.
\<close>

theorem recording_without_meta_is_reported_missing:
  "R \<in> set (recording_rows s) \<Longrightarrow>
   R \<notin> mbid ` set (recording_meta_rows s) \<Longrightarrow>
   R \<notin> fst ` set (recording_redirect_rows s) \<Longrightarrow>
   Some R \<notin> row_mbid ` set (get_unprocessed_recordings_for_scraper scraper p s) \<and>
   R \<in> set (get_recordings_missing_meta s)"
  by (simp add: unprocessed_recordings_mbid_iff recordings_missing_meta_iff)

theorem recording_without_meta_is_reported_missing_witness:
  "get_unprocessed_recordings_for_scraper
     \<lparr>scraper_id = 1, scraper_source_id = 1, scraper_module = ''m'',
       scraper_mb_type = ''recording'', scraper_version = 1, scraper_description = ''d''\<rparr>
     None
     (empty_store\<lparr>recording_rows := [''R1'', ''R2''],
        recording_meta_rows :=
          [\<lparr>mbid = ''R2'', name = ''N'', artist_credit = ''C'', last_updated = 1\<rparr>]\<rparr>) =
     [ [(''mbid'', ''R2''), (''name'', ''N''), (''artist_credit'', ''C'')] ] \<and>
   get_recordings_missing_meta
     (empty_store\<lparr>recording_rows := [''R1'', ''R2''],
        recording_meta_rows :=
          [\<lparr>mbid = ''R2'', name = ''N'', artist_credit = ''C'', last_updated = 1\<rparr>]\<rparr>) =
     [''R1'']"
  using recording_without_meta_is_reported_missing [of "''R1''"
      "empty_store\<lparr>recording_rows := [''R1'', ''R2''],
        recording_meta_rows :=
          [\<lparr>mbid = ''R2'', name = ''N'', artist_credit = ''C'', last_updated = 1\<rparr>]\<rparr>"]
  by (simp add: get_unprocessed_recordings_for_scraper_def get_recordings_missing_meta_def
      inner_join_def left_join_def empty_store_def)

subsection \<open>Release-group identities\<close>

lemma rg_identities_cover_meta_iff:
  "rg_identities_cover_meta s \<longleftrightarrow>
     mbid ` set (release_group_meta_rows s) \<subseteq> set (release_group_rows s)"
  by (auto simp: rg_identities_cover_meta_def list_all_iff)

lemma conn_add_release_group_meta_cover:
  "rg_identities_cover_meta s \<Longrightarrow> rg_identities_cover_meta (conn_add_release_group_meta u s)"
  unfolding rg_identities_cover_meta_iff conn_add_release_group_meta_def
  by (auto split: option.splits)

lemma cache_fold_cover:
  "rg_identities_cover_meta s \<Longrightarrow>
   rg_identities_cover_meta
     (fold (\<lambda>rg s'. conn_add_link_recording_release_group r (mbid rg)
                      (conn_add_release_group_meta rg s')) rgs s)"
proof (induction rgs arbitrary: s)
  case Nil
  then show ?case by simp
next
  case (Cons rg rgs)
  have "rg_identities_cover_meta
          (conn_add_link_recording_release_group r (mbid rg) (conn_add_release_group_meta rg s))"
    using conn_add_release_group_meta_cover [OF Cons.prems, of rg]
    by (simp add: rg_identities_cover_meta_iff conn_add_link_tables)
  then show ?case using Cons.IH by simp
qed

lemma perform_cover:
  "rg_identities_cover_meta s \<Longrightarrow> rg_identities_cover_meta (perform c s)"
proof (cases c)
  case (CacheMetadata recording)
  assume "rg_identities_cover_meta s"
  then have "rg_identities_cover_meta (conn_add_recording_meta recording s)"
    by (simp add: rg_identities_cover_meta_iff conn_add_recording_meta_tables)
  then show ?thesis
    unfolding CacheMetadata perform.simps cache_musicbrainz_metadata_def
    by (rule cache_fold_cover)
qed (simp_all add: rg_identities_cover_meta_iff add_source_tables add_recording_mbids_tables
      add_scraper_tables add_item_tables check_redirect_tables)

lemma perform_all_cover:
  "rg_identities_cover_meta s \<Longrightarrow> rg_identities_cover_meta (perform_all cs s)"
  unfolding perform_all_def
  by (induction cs arbitrary: s) (simp_all add: perform_cover)

text \<open>
  Claim C7.  A release-group upsert that finds no row for the MBID inserts the MBID into
  \<^verbatim>\<open>release_group\<close> together with the new \<^verbatim>\<open>release_group_meta\<close> row; an upsert that
  finds a row (whether it then updates it or discards the update) leaves
  \<^verbatim>\<open>release_group\<close> as it was.  Hence in every store reached from the empty one by calls
  of the data-access module, every \<^verbatim>\<open>release_group_meta\<close> row has its MBID in
  \<^verbatim>\<open>release_group\<close>.
\<close>

theorem release_group_identity_created_with_first_meta:
  "(conn_get_release_group_meta (mbid g) s = None \<longrightarrow>
      release_group_rows (conn_add_release_group_meta g s) = release_group_rows s @ [mbid g] \<and>
      release_group_meta_rows (conn_add_release_group_meta g s) =
        release_group_meta_rows s @
          [\<lparr>mbid = mbid g, name = name g, artist_credit = artist_credit g,
            last_updated = last_updated g, first_release_date = first_release_date g\<rparr>]) \<and>
   (\<forall>e. conn_get_release_group_meta (mbid g) s = Some e \<longrightarrow>
      release_group_rows (conn_add_release_group_meta g s) = release_group_rows s \<and>
      length (release_group_meta_rows (conn_add_release_group_meta g s)) =
        length (release_group_meta_rows s)) \<and>
   rg_identities_cover_meta (perform_all calls empty_store)"
proof (intro conjI allI impI)
  show "rg_identities_cover_meta (perform_all calls empty_store)"
    by (rule perform_all_cover) (simp add: rg_identities_cover_meta_def empty_store_def)
qed (simp_all add: conn_add_release_group_meta_def)

theorem release_group_identity_created_with_first_meta_witness:
  "release_group_rows
     (conn_add_release_group_meta
        \<lparr>mbid = ''g1'', name = ''N'', artist_credit = ''A'', last_updated = 2,
          first_release_date = ''1999''\<rparr> empty_store) = [''g1''] \<and>
   release_group_rows
     (conn_add_release_group_meta
        \<lparr>mbid = ''g1'', name = ''N2'', artist_credit = ''A'', last_updated = 9,
          first_release_date = ''1999''\<rparr>
        (empty_store\<lparr>release_group_rows := [''g1''], release_group_meta_rows :=
           [\<lparr>mbid = ''g1'', name = ''N'', artist_credit = ''A'', last_updated = 2,
             first_release_date = ''1999''\<rparr>]\<rparr>)) = [''g1''] \<and>
   rg_identities_cover_meta
     (perform_all
        [CacheMetadata
           \<lparr>mbid = ''r1'', name = ''R'', artist_credit = ''A'', last_updated = 3,
             release_group_map =
               [(''g1'', \<lparr>mbid = ''g1'', name = ''N'', artist_credit = ''A'', last_updated = 2,
                           first_release_date = ''1999''\<rparr>)]\<rparr>]
        empty_store)"
  using
    release_group_identity_created_with_first_meta
      [of "\<lparr>mbid = ''g1'', name = ''N'', artist_credit = ''A'', last_updated = 2,
             first_release_date = ''1999''\<rparr>" empty_store
          "[CacheMetadata
             \<lparr>mbid = ''r1'', name = ''R'', artist_credit = ''A'', last_updated = 3,
               release_group_map =
                 [(''g1'', \<lparr>mbid = ''g1'', name = ''N'', artist_credit = ''A'',
                             last_updated = 2, first_release_date = ''1999''\<rparr>)]\<rparr>]"]
    release_group_identity_created_with_first_meta
      [of "\<lparr>mbid = ''g1'', name = ''N2'', artist_credit = ''A'', last_updated = 9,
             first_release_date = ''1999''\<rparr>"
          "empty_store\<lparr>release_group_rows := [''g1''], release_group_meta_rows :=
             [\<lparr>mbid = ''g1'', name = ''N'', artist_credit = ''A'', last_updated = 2,
               first_release_date = ''1999''\<rparr>]\<rparr>" "[]"]
  by (simp add: empty_store_def conn_get_release_group_meta_def fetchone_def)

subsection \<open>What a redirect registers\<close>

text \<open>
  Claim C10.  For \<open>query_mbid \<noteq> actual_mbid\<close>, \<^verbatim>\<open>musicbrainz_check_mbid_redirect\<close> adds
  at most \<open>actual_mbid\<close> to \<^verbatim>\<open>recording\<close> and leaves the membership of \<open>query_mbid\<close>
  as it was, while the redirect row for the pair is present afterwards: when
  \<open>query_mbid\<close> was unknown before, the store then holds a redirect row whose source
  MBID is not in \<^verbatim>\<open>recording\<close>.
\<close>

theorem redirect_does_not_register_source:
  "query_mbid \<noteq> actual_mbid \<Longrightarrow>
   (query_mbid \<in> set (recording_rows (musicbrainz_check_mbid_redirect query_mbid actual_mbid s))
      \<longleftrightarrow> query_mbid \<in> set (recording_rows s)) \<and>
   set (recording_rows (musicbrainz_check_mbid_redirect query_mbid actual_mbid s)) \<subseteq>
     insert actual_mbid (set (recording_rows s)) \<and>
   (query_mbid, actual_mbid) \<in>
     set (recording_redirect_rows (musicbrainz_check_mbid_redirect query_mbid actual_mbid s))"
  using check_redirect_recording_rows [of query_mbid actual_mbid s]
    check_redirect_row_present [of query_mbid actual_mbid s]
  by auto

theorem redirect_does_not_register_source_witness:
  "musicbrainz_check_mbid_redirect ''a'' ''b'' empty_store =
     empty_store\<lparr>recording_rows := [''b''], recording_redirect_rows := [(''a'', ''b'')]\<rparr> \<and>
   ''a'' \<notin> set (recording_rows (musicbrainz_check_mbid_redirect ''a'' ''b'' empty_store)) \<and>
   (''a'', ''b'') \<in>
     set (recording_redirect_rows (musicbrainz_check_mbid_redirect ''a'' ''b'' empty_store))"
proof -
  have "''a'' \<noteq> ''b''" by simp
  then show ?thesis
    using redirect_does_not_register_source [of "''a''" "''b''" empty_store]
    by (simp add: musicbrainz_check_mbid_redirect_def empty_store_def)
qed

subsection \<open>The JSON encoder\<close>





text \<open>
  An example: \<^verbatim>\<open>{"first": [1, None], "seen": datetime(2017, 3, 4, 5, 6, 7, tzinfo=utc)}\<close>.
\<close>

lemma json_dumps_example:
  "json_dumps
     (PyDict [(PyStr ''first'', PyList [PyInt 1, PyNone]),
              (PyStr ''seen'',
               PyDateTime \<lparr>year = 2017, month = 3, day = 4, hour = 5, minute = 6, second = 7,
                           microsecond = 0, utcoffset = Some 0\<rparr>)]) =
   Inr (''{'' @ [CHR 0x22] @ ''first'' @ [CHR 0x22] @ '': [1, null], '' @
        [CHR 0x22] @ ''seen'' @ [CHR 0x22] @ '': '' @
        [CHR 0x22] @ ''2017-03-04T05:06:07+00:00'' @ [CHR 0x22] @ ''}'')"
  by code_simp

subsection \<open>Recording an item\<close>




subsection \<open>The script runner\<close>

lemma execute_lines_append:
  "execute_lines execute (pre @ rest) st =
     (case execute_lines execute pre st of
        (None, st') \<Rightarrow> execute_lines execute rest st'
      | (Some e, st') \<Rightarrow> (Some e, st'))"
  by (induction pre arbitrary: st) (auto split: sum.splits)

lemma execute_lines_executed:
  "\<exists>k. executed (snd (execute_lines execute lines st)) =
         executed st @ take k [l \<leftarrow> lines. l \<noteq> [] \<and> \<not> startswith l ''--'']"
proof (induction lines arbitrary: st)
  case Nil
  show ?case by simp
next
  case (Cons line lines)
  show ?case
  proof (cases "line \<noteq> [] \<and> \<not> startswith line ''--''")
    case False
    then show ?thesis using Cons.IH [of st] by auto
  next
    case True
    show ?thesis
    proof (cases "execute line (database st)")
      case (Inl e)
      have "executed st @ [line] =
            executed st @ take 1 [l \<leftarrow> line # lines. l \<noteq> [] \<and> \<not> startswith l ''--'']"
        using True by simp
      then show ?thesis using True Inl by (simp del: take_Suc_Cons) blast
    next
      case (Inr d)
      obtain k where
        "executed (snd (execute_lines execute lines
            (st\<lparr>database := d, executed := executed st @ [line]\<rparr>))) =
         (executed st @ [line]) @ take k [l \<leftarrow> lines. l \<noteq> [] \<and> \<not> startswith l ''--'']"
        using Cons.IH [of "st\<lparr>database := d, executed := executed st @ [line]\<rparr>"] by auto
      then have "executed (snd (execute_lines execute (line # lines) st)) =
         executed st @ take (Suc k) [l \<leftarrow> line # lines. l \<noteq> [] \<and> \<not> startswith l ''--'']"
        using True Inr by simp
      then show ?thesis by blast
    qed
  qed
qed

lemma execute_lines_printed:
  "printed (snd (execute_lines execute lines st)) = printed st"
  by (induction lines arbitrary: st) (auto split: sum.splits)

text \<open>
  Claim C8, as the specification states it, has the runner catch any error of the store
  raised while a line is executed.  The runner's \<^verbatim>\<open>except\<close> clause names
  \<^verbatim>\<open>ProgrammingError\<close> only: a statement that fails with another error of the database
  interface (here a lost connection, \<^verbatim>\<open>OperationalError\<close>) makes the runner raise that
  error to its caller, with nothing printed.
\<close>

theorem run_sql_script_other_error_counterexample:
  "run_sql_script_without_transaction
     (\<lambda>line d. if line = ''SELECT 2'' then Inl (OperationalError ''server closed the connection'')
                else Inr (d + 1))
     [''SELECT 1'', ''SELECT 2'', ''SELECT 3'']
     \<lparr>database = (0 :: nat), executed = [], printed = [], isolation_level = 1, closed = False\<rparr> =
   (Inl (OperationalError ''server closed the connection''),
    \<lparr>database = 1, executed = [''SELECT 1'', ''SELECT 2''], printed = [],
      isolation_level = 1, closed = True\<rparr>)"
  by (simp add: run_sql_script_without_transaction_def restore_and_close_def startswith_def)

text \<open>
  Claim C8, amended.  The runner hands to the connection only lines that are not empty
  and do not begin with \<^verbatim>\<open>--\<close>, in their order.  When the lines before a line \<open>l\<close>
  have run without error and executing \<open>l\<close> raises \<^verbatim>\<open>ProgrammingError\<close>, no later line
  is executed, the error is printed, and the runner returns \<^verbatim>\<open>False\<close>; when executing
  \<open>l\<close> raises any other error, no later line is executed either, nothing is printed, and
  the error is raised to the caller.  In both cases, and when every line succeeds (the
  runner then returns \<^verbatim>\<open>True\<close>), the isolation level is set back and the connection is
  closed.
\<close>

theorem run_sql_script_without_transaction_outcomes:
  fixes execute :: "string \<Rightarrow> 'd \<Rightarrow> exn + 'd" and st :: "'d runner"
  defines "st0 \<equiv> st\<lparr>isolation_level := 0, closed := False\<rparr>"
  shows
  "(\<exists>k. executed (snd (run_sql_script_without_transaction execute lines st)) =
         executed st @ take k [l \<leftarrow> lines. l \<noteq> [] \<and> \<not> startswith l ''--'']) \<and>
   (\<forall>st'. execute_lines execute lines st0 = (None, st') \<longrightarrow>
      run_sql_script_without_transaction execute lines st =
        (Inr True, st'\<lparr>isolation_level := 1, closed := True\<rparr>)) \<and>
   (\<forall>pre l post st' msg.
      lines = pre @ l # post \<and> execute_lines execute pre st0 = (None, st') \<and>
      l \<noteq> [] \<and> \<not> startswith l ''--'' \<and>
      execute l (database st') = Inl (ProgrammingError msg) \<longrightarrow>
      run_sql_script_without_transaction execute lines st =
        (Inr False,
         st'\<lparr>executed := executed st' @ [l], printed := printed st @ [''Error: '' @ msg],
            isolation_level := 1, closed := True\<rparr>)) \<and>
   (\<forall>pre l post st' e.
      lines = pre @ l # post \<and> execute_lines execute pre st0 = (None, st') \<and>
      l \<noteq> [] \<and> \<not> startswith l ''--'' \<and>
      execute l (database st') = Inl e \<and> (\<forall>msg. e \<noteq> ProgrammingError msg) \<longrightarrow>
      run_sql_script_without_transaction execute lines st =
        (Inl e, st'\<lparr>executed := executed st' @ [l], isolation_level := 1, closed := True\<rparr>))"
proof (intro conjI allI impI)
  obtain k where "executed (snd (execute_lines execute lines st0)) =
      executed st0 @ take k [l \<leftarrow> lines. l \<noteq> [] \<and> \<not> startswith l ''--'']"
    using execute_lines_executed by blast
  then have "executed (snd (run_sql_script_without_transaction execute lines st)) =
      executed st @ take k [l \<leftarrow> lines. l \<noteq> [] \<and> \<not> startswith l ''--'']"
    by (auto simp: run_sql_script_without_transaction_def restore_and_close_def st0_def
        split: prod.splits option.splits exn.splits)
  then show "\<exists>k. executed (snd (run_sql_script_without_transaction execute lines st)) =
      executed st @ take k [l \<leftarrow> lines. l \<noteq> [] \<and> \<not> startswith l ''--'']"
    by blast
next
  fix st'
  assume "execute_lines execute lines st0 = (None, st')"
  then show "run_sql_script_without_transaction execute lines st =
        (Inr True, st'\<lparr>isolation_level := 1, closed := True\<rparr>)"
    by (simp add: run_sql_script_without_transaction_def restore_and_close_def st0_def)
next
  fix pre l post st' msg
  assume a: "lines = pre @ l # post \<and> execute_lines execute pre st0 = (None, st') \<and>
      l \<noteq> [] \<and> \<not> startswith l ''--'' \<and>
      execute l (database st') = Inl (ProgrammingError msg)"
  then have "execute_lines execute lines st0 =
      (Some (ProgrammingError msg), st'\<lparr>executed := executed st' @ [l]\<rparr>)"
    by (simp add: execute_lines_append)
  moreover have "printed st' = printed st"
    using a execute_lines_printed [of execute pre st0] by (simp add: st0_def)
  ultimately show "run_sql_script_without_transaction execute lines st =
        (Inr False,
         st'\<lparr>executed := executed st' @ [l], printed := printed st @ [''Error: '' @ msg],
            isolation_level := 1, closed := True\<rparr>)"
    by (simp add: run_sql_script_without_transaction_def restore_and_close_def st0_def)
next
  fix pre l post st' e
  assume a: "lines = pre @ l # post \<and> execute_lines execute pre st0 = (None, st') \<and>
      l \<noteq> [] \<and> \<not> startswith l ''--'' \<and>
      execute l (database st') = Inl e \<and> (\<forall>msg. e \<noteq> ProgrammingError msg)"
  then have "execute_lines execute lines st0 = (Some e, st'\<lparr>executed := executed st' @ [l]\<rparr>)"
    by (simp add: execute_lines_append)
  with a show "run_sql_script_without_transaction execute lines st =
        (Inl e, st'\<lparr>executed := executed st' @ [l], isolation_level := 1, closed := True\<rparr>)"
    by (cases e)
      (simp_all add: run_sql_script_without_transaction_def restore_and_close_def st0_def)
qed

theorem run_sql_script_without_transaction_outcomes_witness:
  "run_sql_script_without_transaction
     (\<lambda>line d. if line = ''CREATE EXTENSON y'' then Inl (ProgrammingError ''syntax error'')
                else Inr (d + 1))
     [''-- extensions'', '''', ''CREATE EXTENSION x'', ''CREATE EXTENSON y'', ''CREATE TABLE t'']
     \<lparr>database = (0 :: nat), executed = [], printed = [], isolation_level = 1, closed = False\<rparr> =
   (Inr False,
    \<lparr>database = 1, executed = [''CREATE EXTENSION x'', ''CREATE EXTENSON y''],
      printed = [''Error: syntax error''], isolation_level = 1, closed = True\<rparr>) \<and>
   run_sql_script_without_transaction
     (\<lambda>line d. if line = ''CREATE EXTENSON y'' then Inl (IntegrityError ''duplicate key'')
                else Inr (d + 1))
     [''-- extensions'', '''', ''CREATE EXTENSION x'', ''CREATE EXTENSON y'', ''CREATE TABLE t'']
     \<lparr>database = (0 :: nat), executed = [], printed = [], isolation_level = 1, closed = False\<rparr> =
   (Inl (IntegrityError ''duplicate key''),
    \<lparr>database = 1, executed = [''CREATE EXTENSION x'', ''CREATE EXTENSON y''],
      printed = [], isolation_level = 1, closed = True\<rparr>) \<and>
   run_sql_script_without_transaction
     (\<lambda>line d. Inr (d + 1))
     [''-- extensions'', '''', ''CREATE EXTENSION x'']
     \<lparr>database = (0 :: nat), executed = [], printed = [], isolation_level = 1, closed = False\<rparr> =
   (Inr True,
    \<lparr>database = 1, executed = [''CREATE EXTENSION x''], printed = [],
      isolation_level = 1, closed = True\<rparr>)"
  (is "?caught \<and> ?raised \<and> ?finished")
proof (intro conjI)
  note outcomes = run_sql_script_without_transaction_outcomes
  show ?caught
    using outcomes [THEN conjunct2, THEN conjunct2, THEN conjunct1, rule_format,
        of "[''-- extensions'', '''', ''CREATE EXTENSION x'', ''CREATE EXTENSON y'', ''CREATE TABLE t'']"
           "[''-- extensions'', '''', ''CREATE EXTENSION x'']" "''CREATE EXTENSON y''"
           "[''CREATE TABLE t'']"
           "\<lambda>line d. if line = ''CREATE EXTENSON y'' then Inl (ProgrammingError ''syntax error'')
                      else Inr (d + 1)"
           "\<lparr>database = (0 :: nat), executed = [], printed = [], isolation_level = 1,
              closed = False\<rparr>"
           "\<lparr>database = (1 :: nat), executed = [''CREATE EXTENSION x''], printed = [],
              isolation_level = 0, closed = False\<rparr>"
           "''syntax error''"]
    by (simp add: startswith_def)
  show ?raised
    using outcomes [THEN conjunct2, THEN conjunct2, THEN conjunct2, rule_format,
        of "[''-- extensions'', '''', ''CREATE EXTENSION x'', ''CREATE EXTENSON y'', ''CREATE TABLE t'']"
           "[''-- extensions'', '''', ''CREATE EXTENSION x'']" "''CREATE EXTENSON y''"
           "[''CREATE TABLE t'']"
           "\<lambda>line d. if line = ''CREATE EXTENSON y'' then Inl (IntegrityError ''duplicate key'')
                      else Inr (d + 1)"
           "\<lparr>database = (0 :: nat), executed = [], printed = [], isolation_level = 1,
              closed = False\<rparr>"
           "\<lparr>database = (1 :: nat), executed = [''CREATE EXTENSION x''], printed = [],
              isolation_level = 0, closed = False\<rparr>"
           "IntegrityError ''duplicate key''"]
    by (simp add: startswith_def)
  show ?finished
    using outcomes [THEN conjunct2, THEN conjunct1, rule_format,
        of "\<lambda>line d. Inr (d + 1)"
           "[''-- extensions'', '''', ''CREATE EXTENSION x'']"
           "\<lparr>database = (0 :: nat), executed = [], printed = [], isolation_level = 1,
              closed = False\<rparr>"
           "\<lparr>database = (1 :: nat), executed = [''CREATE EXTENSION x''], printed = [],
              isolation_level = 0, closed = False\<rparr>"]
    by (simp add: startswith_def)
qed

end
